theory Spec2Isabelle
  imports Main "HOL-Library.Log_Nat"
begin

section \<open>Actuarial premium calculator: the feature encoder\<close>

text \<open>
  The development follows \<^verbatim>\<open>app.py\<close>. Python integers are unbounded, so \<open>age\<close> and
  \<open>vehicle_age\<close> are \<open>int\<close>. A Python \<open>str\<close> is modelled by \<open>string\<close>: the only
  operation the program applies to \<open>location\<close> is \<open>==\<close> against an ASCII literal, and
  two strings are equal exactly when their encodings are.
\<close>

subsection \<open>Exceptions\<close>

text \<open>
  The exceptions that the modelled statements can raise. \<open>FileNotFoundError\<close>,
  \<open>NotADirectoryError\<close> and \<open>PermissionError\<close> are the subclasses of \<open>OSError\<close>
  that opening a file raises; \<open>OSError\<close> stands for its other instances and carries
  the text. \<open>Exception\<close> stands for any exception that is an instance of Python's
  \<open>Exception\<close> other than the ones named here; it carries the text of the exception.
  \<open>StopException\<close> is what \<open>st.stop()\<close> raises to end the current script run.
\<close>

datatype exn =
    FileNotFoundError
  | NotADirectoryError
  | PermissionError
  | OSError string
  | KeyError string
  | ValueError string
  | IndexError
  | Exception string
  | StopException

subsection \<open>A one-row data frame\<close>

text \<open>
  A \<open>pandas.DataFrame\<close> built from a dictionary of lists: the columns in the
  dictionary's insertion order, each with its name and its values.
\<close>

type_synonym dataframe = "(string \<times> int list) list"

text \<open>
  \<open>pd.DataFrame(d)\<close> for a dictionary of lists keeps the keys in order as the columns;
  lists of different lengths raise \<open>ValueError\<close>.
\<close>

definition same_length :: "(string \<times> int list) list \<Rightarrow> bool" where
  "same_length d =
     (case d of
        [] \<Rightarrow> True
      | (c, vs) # rest \<Rightarrow> list_all (\<lambda>(c', ws). length ws = length vs) rest)"

definition DataFrame :: "(string \<times> int list) list \<Rightarrow> exn + dataframe" where
  "DataFrame d =
     (if same_length d then Inr d
      else Inl (ValueError ''All arrays must be of the same length''))"

text \<open>
  \<open>df[names]\<close> with a list of column names: the named columns, in the order of the
  list; a name that is no column raises \<open>KeyError\<close>.
\<close>

fun getitem_columns :: "dataframe \<Rightarrow> string list \<Rightarrow> exn + dataframe" where
  "getitem_columns df [] = Inr []"
| "getitem_columns df (c # cs) =
     (case map_of df c of
        None \<Rightarrow> Inl (KeyError c)
      | Some vs \<Rightarrow>
          (case getitem_columns df cs of
             Inl e \<Rightarrow> Inl e
           | Inr rest \<Rightarrow> Inr ((c, vs) # rest)))"

text \<open>The column names of a frame, and the values of a frame that has one row.\<close>

definition columns :: "dataframe \<Rightarrow> string list" where
  "columns df = map fst df"

definition row_values :: "dataframe \<Rightarrow> int list" where
  "row_values df = concat (map snd df)"

text \<open>The values of the three location indicator columns, looked up by name.\<close>

definition location_columns :: "dataframe \<Rightarrow> int list" where
  "location_columns df =
     concat (map (\<lambda>c. case map_of df c of None \<Rightarrow> [] | Some vs \<Rightarrow> vs)
       [''location_Rural'', ''location_Suburban'', ''location_Urban''])"

subsection \<open>format_input_data\<close>

text \<open>
  \<^verbatim>\<open>
  def format_input_data(age, vehicle_age, location):
      input_dict = {
          'age': [age],
          'vehicle_age': [vehicle_age],
          'location_Rural': [1 if location == "Rural" else 0],
          'location_Suburban': [1 if location == "Suburban" else 0],
          'location_Urban': [1 if location == "Urban" else 0]
      }
      model_feature_order = ['age', 'vehicle_age', 'location_Rural',
                             'location_Suburban', 'location_Urban']
      input_df = pd.DataFrame(input_dict)
      return input_df[model_feature_order]
  \<close>
\<close>

definition model_feature_order :: "string list" where
  "model_feature_order =
     [''age'', ''vehicle_age'', ''location_Rural'', ''location_Suburban'', ''location_Urban'']"

definition format_input_data :: "int \<Rightarrow> int \<Rightarrow> string \<Rightarrow> exn + dataframe" where
  "format_input_data age vehicle_age location =
     (let input_dict =
            [(''age'', [age]),
             (''vehicle_age'', [vehicle_age]),
             (''location_Rural'', [if location = ''Rural'' then 1 else 0]),
             (''location_Suburban'', [if location = ''Suburban'' then 1 else 0]),
             (''location_Urban'', [if location = ''Urban'' then 1 else 0])]
      in case DataFrame input_dict of
           Inl e \<Rightarrow> Inl e
         | Inr input_df \<Rightarrow> getitem_columns input_df model_feature_order)"

section \<open>Floating point: the premium and its conversion\<close>

text \<open>
  \<open>model.predict(input_df)[0]\<close> is a \<open>numpy.float64\<close>, an IEEE 754 binary64 number,
  and \<open>prediction_usd * EXCHANGE_RATE\<close> is a binary64 multiplication: the integer 3700
  is converted to binary64 and the exact product is rounded to the nearest binary64
  number, ties to the even significand. A finite number is modelled by the rational it
  denotes; the two zeros are one value (they compare equal, and no operation modelled
  here tells them apart). \<open>Infinity True\<close> is the negative infinity.
\<close>

datatype float64 = Finite rat | Infinity bool | NaN

definition pow2 :: "int \<Rightarrow> rat" where
  "pow2 k = (if 0 \<le> k then 2 ^ nat k else 1 / 2 ^ nat (- k))"

text \<open>The exponent of a positive rational: \<open>2 ^ e \<le> x < 2 ^ (e + 1)\<close>.\<close>

definition floor_log2 :: "rat \<Rightarrow> int" where
  "floor_log2 x =
     (let (n, d) = quotient_of x; k = bitlen n - bitlen d
      in if pow2 k \<le> x then k else k - 1)"

definition round_half_even :: "rat \<Rightarrow> int" where
  "round_half_even x =
     (let f = \<lfloor>x\<rfloor>; r = x - of_int f
      in if r < 1 / 2 then f
         else if 1 / 2 < r then f + 1
         else if even f then f else f + 1)"

text \<open>
  Rounding to binary64: 53 significant bits, the least exponent \<open>- 1022\<close> (below it the
  numbers are subnormal and the spacing stays \<open>2 ^ - 1074\<close>), and a rounded value of
  \<open>2 ^ 1024\<close> or more overflows to an infinity.
\<close>

definition round_binary64 :: "rat \<Rightarrow> float64" where
  "round_binary64 x =
     (if x = 0 then Finite 0
      else
        let e = max (floor_log2 \<bar>x\<bar>) (- 1022);
            ulp = pow2 (e - 52);
            y = of_int (round_half_even (x / ulp)) * ulp
        in if 1024 \<le> floor_log2 \<bar>y\<bar> then Infinity (x < 0) else Finite y)"

fun float_mul :: "float64 \<Rightarrow> float64 \<Rightarrow> float64" where
  "float_mul (Finite p) (Finite q) = round_binary64 (p * q)"
| "float_mul (Finite p) (Infinity t) = (if p = 0 then NaN else Infinity (t \<noteq> (p < 0)))"
| "float_mul (Infinity s) (Finite q) = (if q = 0 then NaN else Infinity (s \<noteq> (q < 0)))"
| "float_mul (Infinity s) (Infinity t) = Infinity (s \<noteq> t)"
| "float_mul NaN y = NaN"
| "float_mul x NaN = NaN"

fun float_add :: "float64 \<Rightarrow> float64 \<Rightarrow> float64" where
  "float_add (Finite p) (Finite q) = round_binary64 (p + q)"
| "float_add (Finite p) (Infinity t) = Infinity t"
| "float_add (Infinity s) (Finite q) = Infinity s"
| "float_add (Infinity s) (Infinity t) = (if s = t then Infinity s else NaN)"
| "float_add NaN y = NaN"
| "float_add x NaN = NaN"

text \<open>The comparison \<open>==\<close> of two floats: a NaN is equal to nothing.\<close>

fun float_eq :: "float64 \<Rightarrow> float64 \<Rightarrow> bool" where
  "float_eq (Finite p) (Finite q) = (p = q)"
| "float_eq (Infinity s) (Infinity t) = (s = t)"
| "float_eq x y = False"

text \<open>The conversion of an integer operand to binary64.\<close>

definition float_of_int :: "int \<Rightarrow> float64" where
  "float_of_int n = round_binary64 (of_int n)"

text \<open>
  \<^verbatim>\<open>
  EXCHANGE_RATE = 3700
  ...
  prediction_ugx = prediction_usd * EXCHANGE_RATE
  \<close>
\<close>

definition EXCHANGE_RATE :: int where
  "EXCHANGE_RATE = 3700"

definition prediction_ugx :: "float64 \<Rightarrow> float64" where
  "prediction_ugx prediction_usd = float_mul prediction_usd (float_of_int EXCHANGE_RATE)"

text \<open>
  A rational is a finite binary64 number when rounding leaves it as it is.
\<close>

definition representable :: "rat \<Rightarrow> bool" where
  "representable x = (round_binary64 x = Finite x)"

section \<open>The model loader and the application\<close>

subsection \<open>The model object, the files and the process state\<close>

text \<open>
  The loaded model is an opaque object of which the program uses one method,
  \<open>predict\<close>, on a data frame; it returns an array of floats or raises. The object has
  an identity (what Python's \<open>is\<close> compares): \<open>joblib.load\<close> builds a new object on
  every call.
\<close>

record model_object =
  object_id :: nat
  predict :: "dataframe \<Rightarrow> exn + float64 list"

text \<open>
  Why opening a path at which nothing exists fails: there is no entry of that name
  (\<open>FileNotFoundError\<close>); a component of the path is a regular file, as in
  \<open>model.pkl/x.pkl\<close> (\<open>NotADirectoryError\<close>); a directory on the way may not be
  searched (\<open>PermissionError\<close>); the name holds a NUL byte (\<open>ValueError\<close>); or the
  system refuses the path for another reason, such as a name longer than it allows
  (\<open>OSError\<close> with the system's text).
\<close>

datatype open_failure =
    No_entry
  | Not_a_directory
  | Permission_denied
  | Embedded_null
  | Os_error string

fun open_error :: "open_failure \<Rightarrow> exn" where
  "open_error No_entry = FileNotFoundError"
| "open_error Not_a_directory = NotADirectoryError"
| "open_error Permission_denied = PermissionError"
| "open_error Embedded_null = ValueError ''embedded null byte''"
| "open_error (Os_error text) = OSError text"

text \<open>
  What is at a path: nothing (the path does not exist, and opening it fails in the way
  given), a file whose loading raises the given exception, or a pickled model with the
  given \<open>predict\<close>. The files do not change while the process runs.
\<close>

datatype file_content =
    No_such_file open_failure
  | Unreadable exn
  | Pickled "dataframe \<Rightarrow> exn + float64 list"

type_synonym filesystem = "string \<Rightarrow> file_content"

text \<open>The two messages that \<open>load_model\<close> passes to \<open>st.error\<close>.\<close>

datatype message =
    Model_file_not_found string
  | Error_loading_model exn

text \<open>
  The trace of a process: its calls of \<open>joblib.load\<close>, \<open>st.error\<close>, \<open>st.stop\<close>,
  \<open>format_input_data\<close> and \<open>predict\<close>, and the display of the two result cards, in
  the order in which they happen. \<open>Joblib_load arg path\<close> is the call
  \<open>joblib.load(path)\<close> made by a call of \<open>load_model\<close> whose argument was \<open>arg\<close>
  (\<open>None\<close> when the call passed no argument). The page elements that only decorate
  (headers, info cards, the footer) are left out.
\<close>

datatype event =
    Joblib_load "string option" string
  | St_error message
  | St_stop
  | Format_input_data int int string
  | Predict nat dataframe
  | Premium_displayed float64 float64

text \<open>
  The state of the process: the entries of \<open>st.cache_resource\<close> for \<open>load_model\<close>; the
  identity of the next object; the calls made so far. \<open>st.cache_resource\<close> keys an
  entry on the arguments as the call passes them, so a call with no argument and a call
  that passes the default path have two entries: the key is \<open>None\<close> for the first and
  \<open>Some path\<close> for a call that passes \<open>path\<close>.
\<close>

record state =
  cache_resource :: "string option \<rightharpoonup> model_object"
  next_id :: nat
  trace :: "event list"

definition initial_state :: state where
  "initial_state = \<lparr>cache_resource = Map.empty, next_id = 0, trace = []\<rparr>"

definition log_event :: "event \<Rightarrow> state \<Rightarrow> state" where
  "log_event ev s = s\<lparr>trace := trace s @ [ev]\<rparr>"

definition joblib_load :: "filesystem \<Rightarrow> string \<Rightarrow> state \<Rightarrow> (exn + model_object) \<times> state" where
  "joblib_load fs path s =
     (case fs path of
        No_such_file why \<Rightarrow> (Inl (open_error why), s)
      | Unreadable e \<Rightarrow> (Inl e, s)
      | Pickled p \<Rightarrow>
          (Inr \<lparr>object_id = next_id s, predict = p\<rparr>, s\<lparr>next_id := Suc (next_id s)\<rparr>))"

definition st_error :: "message \<Rightarrow> state \<Rightarrow> state" where
  "st_error msg s = log_event (St_error msg) s"

text \<open>\<open>st.stop()\<close> ends the script run by raising \<open>StopException\<close>.\<close>

definition st_stop :: "state \<Rightarrow> (exn + 'a) \<times> state" where
  "st_stop s = (Inl StopException, log_event St_stop s)"

text \<open>
  \<open>except Exception\<close> catches every exception but the ones outside the \<open>Exception\<close>
  hierarchy; of the modelled ones that is \<open>StopException\<close>.
\<close>

definition is_Exception :: "exn \<Rightarrow> bool" where
  "is_Exception e = (e \<noteq> StopException)"

subsection \<open>load_model\<close>

text \<open>
  \<^verbatim>\<open>
  @st.cache_resource
  def load_model(model_path='gbm_auto_model.pkl'):
      try:
          return joblib.load(model_path)
      except FileNotFoundError:
          st.error(f"Model file not found. Ensure '{model_path}' is in the app directory.")
          st.stop()
      except Exception as e:
          st.error(f"An error occurred loading the model: {e}")
          st.stop()
  \<close>
  The argument of a call is \<open>Some path\<close>, or \<open>None\<close> when the call passes none and
  \<open>model_path\<close> takes its default. \<open>load_model_body\<close> is the function as written,
  \<open>load_model\<close> the function as decorated: \<open>st.cache_resource\<close> returns the stored
  object when the argument has an entry, and otherwise runs the body and stores what it
  returns; a run of the body that raises stores nothing.
\<close>

definition default_model_path :: string where
  "default_model_path = ''gbm_auto_model.pkl''"

definition model_path_of :: "string option \<Rightarrow> string" where
  "model_path_of arg = (case arg of None \<Rightarrow> default_model_path | Some path \<Rightarrow> path)"

definition load_model_body :: "filesystem \<Rightarrow> string option \<Rightarrow> state \<Rightarrow> (exn + model_object) \<times> state" where
  "load_model_body fs arg s =
     (let model_path = model_path_of arg
      in case joblib_load fs model_path (log_event (Joblib_load arg model_path) s) of
           (Inr m, s1) \<Rightarrow> (Inr m, s1)
         | (Inl e, s1) \<Rightarrow>
             if e = FileNotFoundError then st_stop (st_error (Model_file_not_found model_path) s1)
             else if is_Exception e then st_stop (st_error (Error_loading_model e) s1)
             else (Inl e, s1))"

definition load_model :: "filesystem \<Rightarrow> string option \<Rightarrow> state \<Rightarrow> (exn + model_object) \<times> state" where
  "load_model fs arg s =
     (case cache_resource s arg of
        Some m \<Rightarrow> (Inr m, s)
      | None \<Rightarrow>
          (case load_model_body fs arg s of
             (Inr m, s1) \<Rightarrow> (Inr m, s1\<lparr>cache_resource := (cache_resource s1)(arg \<mapsto> m)\<rparr>)
           | (Inl e, s1) \<Rightarrow> (Inl e, s1)))"

subsection \<open>main\<close>

text \<open>
  What the input widgets of one script run return: the two number inputs, the select
  box and the button.
\<close>

record widgets =
  age_input :: int
  vehicle_input :: int
  location_input :: string
  calculate_btn :: bool

text \<open>
  \<^verbatim>\<open>
  def main():
      model = load_model()
      ...
      if calculate_btn:
          input_df = format_input_data(age, vehicle_age, location)
          prediction_usd = model.predict(input_df)[0]
          prediction_ugx = prediction_usd * EXCHANGE_RATE
          ... the two result cards ...
  \<close>
  \<open>main\<close> calls \<open>load_model\<close> with no argument. The result is the exception that
  leaves \<open>main\<close>, or the pair \<open>(prediction_usd, prediction_ugx)\<close> that the result cards
  display, or \<open>None\<close> when the button was not pressed.
\<close>

definition main :: "filesystem \<Rightarrow> widgets \<Rightarrow> state \<Rightarrow> (exn + (float64 \<times> float64) option) \<times> state" where
  "main fs w s =
     (case load_model fs None s of
        (Inl e, s1) \<Rightarrow> (Inl e, s1)
      | (Inr model, s1) \<Rightarrow>
          if calculate_btn w then
            let s2 = log_event (Format_input_data (age_input w) (vehicle_input w) (location_input w)) s1
            in case format_input_data (age_input w) (vehicle_input w) (location_input w) of
                 Inl e \<Rightarrow> (Inl e, s2)
               | Inr input_df \<Rightarrow>
                   let s3 = log_event (Predict (object_id model) input_df) s2
                   in case predict model input_df of
                        Inl e \<Rightarrow> (Inl e, s3)
                      | Inr [] \<Rightarrow> (Inl IndexError, s3)
                      | Inr (prediction_usd # rest) \<Rightarrow>
                          (Inr (Some (prediction_usd, prediction_ugx prediction_usd)),
                           log_event (Premium_displayed prediction_usd (prediction_ugx prediction_usd)) s3)
          else (Inr None, s1))"

text \<open>
  The states of a process: it starts with an empty cache, and every script run is a
  call to \<open>main\<close>; a call to \<open>load_model\<close> with any argument is a step too.
\<close>

inductive reachable :: "filesystem \<Rightarrow> state \<Rightarrow> bool" for fs :: filesystem where
  start: "reachable fs initial_state"
| load: "reachable fs s \<Longrightarrow> reachable fs (snd (load_model fs arg s))"
| run: "reachable fs s \<Longrightarrow> reachable fs (snd (main fs w s))"

text \<open>
  The invariant of the cache: an entry for an argument holds a model read from the
  argument's path by the one call of \<open>joblib.load\<close> made for that argument; an
  argument whose path holds a model and that has no entry was not loaded yet.
\<close>

definition cache_inv :: "filesystem \<Rightarrow> state \<Rightarrow> bool" where
  "cache_inv fs s =
     (\<forall>k. case cache_resource s k of
            Some m \<Rightarrow>
              fs (model_path_of k) = Pickled (predict m)
              \<and> count_list (trace s) (Joblib_load k (model_path_of k)) = 1
          | None \<Rightarrow>
              (\<forall>f. fs (model_path_of k) = Pickled f \<longrightarrow>
                 count_list (trace s) (Joblib_load k (model_path_of k)) = 0))"

text \<open>The calls of \<open>joblib.load\<close> on a path, whichever call of \<open>load_model\<close> made them.\<close>

fun loads_path :: "string \<Rightarrow> event \<Rightarrow> bool" where
  "loads_path path (Joblib_load arg p) = (p = path)"
| "loads_path path ev = False"

subsection \<open>Concrete files and models\<close>

text \<open>
  A directory with no file; a directory whose only entry is the regular file
  \<open>gbm_auto_model.pkl\<close>, so that a path below that file does not exist and is no
  directory path either; and a model that predicts 2.5 for every row.
\<close>

definition no_files :: filesystem where
  "no_files = (\<lambda>path. No_such_file No_entry)"

definition one_file :: "(dataframe \<Rightarrow> exn + float64 list) \<Rightarrow> filesystem" where
  "one_file p =
     (\<lambda>path.
        if path = ''gbm_auto_model.pkl'' then Pickled p
        else if take 19 path = ''gbm_auto_model.pkl/'' then No_such_file Not_a_directory
        else No_such_file No_entry)"

definition stub_predict :: "dataframe \<Rightarrow> exn + float64 list" where
  "stub_predict df = Inr [Finite (5 / 2)]"

section \<open>Properties of the feature encoder\<close>

lemma format_input_data_eq:
  "format_input_data age vehicle_age location =
     Inr [(''age'', [age]),
          (''vehicle_age'', [vehicle_age]),
          (''location_Rural'', [if location = ''Rural'' then 1 else 0]),
          (''location_Suburban'', [if location = ''Suburban'' then 1 else 0]),
          (''location_Urban'', [if location = ''Urban'' then 1 else 0])]"
  unfolding format_input_data_def Let_def model_feature_order_def DataFrame_def same_length_def
  by simp

lemma format_input_data_columns:
  "format_input_data age vehicle_age location = Inr df \<Longrightarrow> columns df = model_feature_order"
  unfolding format_input_data_eq columns_def model_feature_order_def by auto

lemma format_input_data_row:
  "format_input_data age vehicle_age location = Inr df \<Longrightarrow>
   row_values df =
     [age, vehicle_age,
      if location = ''Rural'' then 1 else 0,
      if location = ''Suburban'' then 1 else 0,
      if location = ''Urban'' then 1 else 0]"
  unfolding format_input_data_eq row_values_def by auto

lemma format_input_data_location_columns:
  "format_input_data age vehicle_age location = Inr df \<Longrightarrow>
   location_columns df =
     [if location = ''Rural'' then 1 else 0,
      if location = ''Suburban'' then 1 else 0,
      if location = ''Urban'' then 1 else 0]"
  unfolding format_input_data_eq location_columns_def by auto

text \<open>
  Claim C1. For every input, \<open>format_input_data\<close> returns a frame whose columns are, in
  this order, \<open>age\<close>, \<open>vehicle_age\<close>, \<open>location_Rural\<close>, \<open>location_Suburban\<close>,
  \<open>location_Urban\<close>, and whose row holds the age, the vehicle age and the three
  indicators in that order. Age 40, vehicle age 5 and \<open>Urban\<close> give the row
  \<open>[40, 5, 0, 0, 1]\<close>; age 18, vehicle age 1 and \<open>Rural\<close> give \<open>[18, 1, 1, 0, 0]\<close>.
\<close>

theorem format_input_data_fixed_order:
  "(\<exists>df. format_input_data age vehicle_age location = Inr df
      \<and> columns df =
          [''age'', ''vehicle_age'', ''location_Rural'', ''location_Suburban'', ''location_Urban'']
      \<and> row_values df =
          [age, vehicle_age,
           if location = ''Rural'' then 1 else 0,
           if location = ''Suburban'' then 1 else 0,
           if location = ''Urban'' then 1 else 0])
   \<and> map_sum id row_values (format_input_data 40 5 ''Urban'') = Inr [40, 5, 0, 0, 1]
   \<and> map_sum id row_values (format_input_data 18 1 ''Rural'') = Inr [18, 1, 1, 0, 0]"
proof -
  obtain df where df: "format_input_data age vehicle_age location = Inr df"
    by (simp add: format_input_data_eq)
  have "columns df =
      [''age'', ''vehicle_age'', ''location_Rural'', ''location_Suburban'', ''location_Urban'']"
    using format_input_data_columns [OF df] by (simp add: model_feature_order_def)
  moreover note format_input_data_row [OF df]
  moreover have "map_sum id row_values (format_input_data 40 5 ''Urban'') = Inr [40, 5, 0, 0, 1]"
    by (simp add: format_input_data_eq row_values_def)
  moreover have "map_sum id row_values (format_input_data 18 1 ''Rural'') = Inr [18, 1, 1, 0, 0]"
    by (simp add: format_input_data_eq row_values_def)
  ultimately show ?thesis using df by blast
qed

text \<open>
  Claim C2. For an age in 18..80, a vehicle age in 1..20 and a location among \<open>Urban\<close>,
  \<open>Suburban\<close> and \<open>Rural\<close>, the row has five elements, exactly one of the three
  location columns is 1 and the other two are 0, and the three add up to 1.
\<close>

theorem format_input_data_one_hot:
  assumes "18 \<le> age" and "age \<le> 80"
    and "1 \<le> vehicle_age" and "vehicle_age \<le> 20"
    and "location \<in> {''Urban'', ''Suburban'', ''Rural''}"
  shows "\<exists>df r s u. format_input_data age vehicle_age location = Inr df
      \<and> length (row_values df) = 5
      \<and> row_values df = [age, vehicle_age, r, s, u]
      \<and> location_columns df = [r, s, u]
      \<and> (r = 1 \<and> s = 0 \<and> u = 0 \<or> r = 0 \<and> s = 1 \<and> u = 0 \<or> r = 0 \<and> s = 0 \<and> u = 1)
      \<and> r + s + u = 1"
proof -
  obtain df where df: "format_input_data age vehicle_age location = Inr df"
    by (simp add: format_input_data_eq)
  from assms(5) consider "location = ''Urban''" | "location = ''Suburban''" | "location = ''Rural''"
    by auto
  then show ?thesis
  proof cases
    case 1
    with format_input_data_row [OF df] format_input_data_location_columns [OF df] df
    show ?thesis by simp
  next
    case 2
    with format_input_data_row [OF df] format_input_data_location_columns [OF df] df
    show ?thesis by simp
  next
    case 3
    with format_input_data_row [OF df] format_input_data_location_columns [OF df] df
    show ?thesis by simp
  qed
qed

theorem format_input_data_one_hot_witness:
  "(18::int) \<le> 40 \<and> (40::int) \<le> 80 \<and> (1::int) \<le> 5 \<and> (5::int) \<le> 20
   \<and> ''Urban'' \<in> {''Urban'', ''Suburban'', ''Rural''}
   \<and> (\<exists>df r s u. format_input_data 40 5 ''Urban'' = Inr df
      \<and> length (row_values df) = 5
      \<and> row_values df = [40, 5, r, s, u]
      \<and> location_columns df = [r, s, u]
      \<and> (r = 1 \<and> s = 0 \<and> u = 0 \<or> r = 0 \<and> s = 1 \<and> u = 0 \<or> r = 0 \<and> s = 0 \<and> u = 1)
      \<and> r + s + u = 1)"
  using format_input_data_one_hot [of 40 5 "''Urban''"] by simp

text \<open>
  Claim C8. When the location is none of \<open>Urban\<close>, \<open>Suburban\<close> and \<open>Rural\<close>,
  \<open>format_input_data\<close> raises nothing and returns a row whose three location columns
  are all 0.
\<close>

theorem format_input_data_unknown_location:
  assumes "location \<notin> {''Urban'', ''Suburban'', ''Rural''}"
  shows "\<exists>df. format_input_data age vehicle_age location = Inr df
      \<and> location_columns df = [0, 0, 0]
      \<and> row_values df = [age, vehicle_age, 0, 0, 0]"
proof -
  obtain df where df: "format_input_data age vehicle_age location = Inr df"
    by (simp add: format_input_data_eq)
  from assms have "location \<noteq> ''Urban''" "location \<noteq> ''Suburban''" "location \<noteq> ''Rural''"
    by auto
  with format_input_data_row [OF df] format_input_data_location_columns [OF df] df
  show ?thesis by simp
qed

theorem format_input_data_unknown_location_witness:
  "''Village'' \<notin> {''Urban'', ''Suburban'', ''Rural''}
   \<and> (\<exists>df. format_input_data 40 5 ''Village'' = Inr df
      \<and> location_columns df = [0, 0, 0]
      \<and> row_values df = [40, 5, 0, 0, 0])"
  using format_input_data_unknown_location [of "''Village''" 40 5] by simp

text \<open>
  Claim C9. For every integer age and vehicle age, inside the ranges of the input
  widgets or not, and every location string, the first entry of the row is the age and
  the second is the vehicle age, as given: age \<open>-3\<close> and vehicle age 500 are encoded as
  they are.
\<close>

theorem format_input_data_verbatim:
  "(\<exists>df rest. format_input_data age vehicle_age location = Inr df
      \<and> row_values df = age # vehicle_age # rest \<and> length rest = 3)
   \<and> map_sum id row_values (format_input_data (- 3) 500 ''Urban'') = Inr [- 3, 500, 0, 0, 1]"
proof -
  obtain df where df: "format_input_data age vehicle_age location = Inr df"
    by (simp add: format_input_data_eq)
  have "\<exists>rest. row_values df = age # vehicle_age # rest \<and> length rest = 3"
    using format_input_data_row [OF df] by simp
  moreover have
    "map_sum id row_values (format_input_data (- 3) 500 ''Urban'') = Inr [- 3, 500, 0, 0, 1]"
    by (simp add: format_input_data_eq row_values_def)
  ultimately show ?thesis using df by blast
qed

text \<open>
  Claim C10. For every location string, the three location columns add up to 0 or to 1,
  and they add up to 1 exactly when the location is the string \<open>Rural\<close>, \<open>Suburban\<close>
  or \<open>Urban\<close>, compared case-sensitively: \<open>urban\<close> gives 0.
\<close>

theorem format_input_data_location_sum:
  "(\<exists>df. format_input_data age vehicle_age location = Inr df
      \<and> (sum_list (location_columns df) = 0 \<or> sum_list (location_columns df) = 1)
      \<and> (sum_list (location_columns df) = 1
           \<longleftrightarrow> location = ''Rural'' \<or> location = ''Suburban'' \<or> location = ''Urban''))
   \<and> map_sum id (\<lambda>df. sum_list (location_columns df)) (format_input_data 40 5 ''urban'') = Inr 0"
proof -
  obtain df where df: "format_input_data age vehicle_age location = Inr df"
    by (simp add: format_input_data_eq)
  have "sum_list (location_columns df) = 0 \<or> sum_list (location_columns df) = 1"
    using format_input_data_location_columns [OF df] by simp
  moreover have "sum_list (location_columns df) = 1
      \<longleftrightarrow> location = ''Rural'' \<or> location = ''Suburban'' \<or> location = ''Urban''"
    using format_input_data_location_columns [OF df] by auto
  moreover have
    "map_sum id (\<lambda>df. sum_list (location_columns df)) (format_input_data 40 5 ''urban'') = Inr 0"
    by (simp add: format_input_data_eq location_columns_def)
  ultimately show ?thesis using df by blast
qed

section \<open>Properties of the conversion\<close>

subsection \<open>The exponent\<close>

lemma pow2_powi: "pow2 k = 2 powi k"
  by (simp add: pow2_def power_int_def field_simps)

lemma pow2_pos: "0 < pow2 k"
  by (simp add: pow2_powi)

lemma pow2_add: "pow2 (a + b) = pow2 a * pow2 b"
  by (simp add: pow2_powi power_int_add)

lemma pow2_of_nat: "pow2 (int n) = 2 ^ n"
  by (simp add: pow2_def)

lemma floor_log2_bounds:
  assumes "0 < x"
  shows "pow2 (floor_log2 x) \<le> x \<and> x < pow2 (floor_log2 x + 1)"
proof -
  obtain n d where q: "quotient_of x = (n, d)" by (cases "quotient_of x")
  then have d: "0 < d" and x: "x = of_int n / of_int d"
    using quotient_of_denom_pos quotient_of_div by auto
  with assms have n: "0 < n" by (simp add: zero_less_divide_iff)
  define k where "k = bitlen n - bitlen d"
  from bitlen_bounds [OF n] have n1: "2 ^ nat (bitlen n - 1) \<le> n" and n2: "n < 2 ^ nat (bitlen n)"
    by auto
  from bitlen_bounds [OF d] have d1: "2 ^ nat (bitlen d - 1) \<le> d" and d2: "d < 2 ^ nat (bitlen d)"
    by auto
  have bn: "0 < bitlen n" and bd: "0 < bitlen d"
    using n d bitlen_eq_zero_iff [of n] bitlen_eq_zero_iff [of d] bitlen_nonneg [of n]
      bitlen_nonneg [of d] by linarith+
  have N1: "pow2 (bitlen n - 1) \<le> of_int n"
  proof -
    have "(of_int (2 ^ nat (bitlen n - 1)) :: rat) \<le> of_int n"
      using n1 by (simp only: of_int_le_iff)
    then show ?thesis using bn by (simp add: pow2_def)
  qed
  have N2: "of_int n < pow2 (bitlen n)"
  proof -
    have "(of_int n :: rat) < of_int (2 ^ nat (bitlen n))"
      using n2 by (simp only: of_int_less_iff)
    then show ?thesis using bn by (simp add: pow2_def)
  qed
  have D1: "pow2 (bitlen d - 1) \<le> of_int d"
  proof -
    have "(of_int (2 ^ nat (bitlen d - 1)) :: rat) \<le> of_int d"
      using d1 by (simp only: of_int_le_iff)
    then show ?thesis using bd by (simp add: pow2_def)
  qed
  have D2: "of_int d < pow2 (bitlen d)"
  proof -
    have "(of_int d :: rat) < of_int (2 ^ nat (bitlen d))"
      using d2 by (simp only: of_int_less_iff)
    then show ?thesis using bd by (simp add: pow2_def)
  qed
  have dpos: "(0::rat) < of_int d" using d by simp
  have lower: "pow2 (k - 1) < x"
  proof -
    have "pow2 (k - 1) * of_int d < pow2 (k - 1) * pow2 (bitlen d)"
      using D2 pow2_pos [of "k - 1"] by (simp only: mult_less_cancel_left_pos)
    also have "\<dots> = pow2 (bitlen n - 1)"
      by (simp add: pow2_add [symmetric] k_def)
    also have "\<dots> \<le> of_int n" by (rule N1)
    finally show ?thesis using dpos by (simp add: x pos_less_divide_eq)
  qed
  have upper: "x < pow2 (k + 1)"
  proof -
    have "of_int n < pow2 (bitlen n)" by (rule N2)
    also have "\<dots> = pow2 (k + 1) * pow2 (bitlen d - 1)"
      by (simp add: pow2_add [symmetric] k_def)
    also have "\<dots> \<le> pow2 (k + 1) * of_int d"
      using D1 pow2_pos [of "k + 1"] by (simp only: mult_le_cancel_left_pos)
    finally show ?thesis using dpos by (simp add: x pos_divide_less_eq)
  qed
  show ?thesis
    using lower upper q unfolding floor_log2_def k_def [symmetric] Let_def
    by (auto simp: k_def)
qed

subsection \<open>Rounding is to a nearest number\<close>

text \<open>
  The rounded value is at most half a unit in the last place away.
\<close>

lemma round_half_even_error: "\<bar>of_int (round_half_even x) - x\<bar> \<le> 1 / 2"
proof -
  define f where "f = \<lfloor>x\<rfloor>"
  define r where "r = x - of_int f"
  have r0: "0 \<le> r" and r1: "r < 1" unfolding r_def f_def by linarith+
  have x: "x = of_int f + r" by (simp add: r_def)
  show ?thesis
    unfolding round_half_even_def Let_def f_def [symmetric] r_def [symmetric]
    using r0 r1 by (auto simp: x)
qed

lemma round_binary64_error:
  assumes "round_binary64 x = Finite y" and "x \<noteq> 0"
  shows "\<bar>y - x\<bar> \<le> pow2 (max (floor_log2 \<bar>x\<bar>) (- 1022) - 52) / 2"
proof -
  define ulp where "ulp = pow2 (max (floor_log2 \<bar>x\<bar>) (- 1022) - 52)"
  have ulp: "0 < ulp" by (simp add: ulp_def pow2_pos)
  from assms have y: "y = of_int (round_half_even (x / ulp)) * ulp"
    by (simp add: round_binary64_def Let_def ulp_def split: if_splits)
  have "y - x = (of_int (round_half_even (x / ulp)) - x / ulp) * ulp"
    using ulp by (simp add: y left_diff_distrib)
  then have "\<bar>y - x\<bar> = \<bar>of_int (round_half_even (x / ulp)) - x / ulp\<bar> * ulp"
    using ulp by (simp only: abs_mult abs_of_pos)
  also have "\<dots> \<le> 1 / 2 * ulp"
    using round_half_even_error [of "x / ulp"] ulp by (simp only: mult_le_cancel_right_pos)
  finally show ?thesis by (simp add: ulp_def)
qed

subsection \<open>Rounding never yields a NaN\<close>

lemma round_binary64_not_NaN: "round_binary64 x \<noteq> NaN"
  by (simp add: round_binary64_def Let_def)

lemma float_eq_round_refl: "float_eq (round_binary64 x) (round_binary64 x)"
  by (cases "round_binary64 x") (simp_all add: round_binary64_not_NaN)

lemma float_of_int_EXCHANGE_RATE: "float_of_int EXCHANGE_RATE = Finite 3700"
  unfolding EXCHANGE_RATE_def float_of_int_def by code_simp

lemma prediction_ugx_Finite: "prediction_ugx (Finite q) = round_binary64 (q * 3700)"
  by (simp add: prediction_ugx_def float_of_int_EXCHANGE_RATE)

subsection \<open>The floats 0.1 and 0.2\<close>

text \<open>
  The literals \<open>0.1\<close> and \<open>0.2\<close> denote the binary64 numbers nearest to one tenth
  and to two tenths. Their float sum is \<open>0.30000000000000004\<close>, and its product with
  3700 is \<open>1110.0000000000002\<close>, while the two products are 370 and 740.
\<close>

lemma float_0_1: "round_binary64 (1 / 10) = Finite (3602879701896397 / 36028797018963968)"
  by code_simp

lemma float_0_2: "round_binary64 (2 / 10) = Finite (3602879701896397 / 18014398509481984)"
  by code_simp

lemma float_0_1_plus_0_2:
  "round_binary64 (3602879701896397 / 36028797018963968 + 3602879701896397 / 18014398509481984)
   = Finite (1351079888211149 / 4503599627370496)"
  by code_simp

lemma float_0_1_times_3700:
  "round_binary64 (3602879701896397 / 36028797018963968 * 3700) = Finite 370"
  by code_simp

lemma float_0_2_times_3700:
  "round_binary64 (3602879701896397 / 18014398509481984 * 3700) = Finite 740"
  by code_simp

lemma float_0_3_times_3700:
  "round_binary64 (1351079888211149 / 4503599627370496 * 3700)
   = Finite (4881831627325441 / 4398046511104)"
  by code_simp

lemma float_370_plus_740: "round_binary64 (370 + 740) = Finite 1110"
  by code_simp

lemma prediction_ugx_100: "prediction_ugx (Finite 100) = Finite 370000"
  by code_simp

lemma prediction_ugx_0: "prediction_ugx (Finite 0) = Finite 0"
  by code_simp

lemma prediction_ugx_2_5: "prediction_ugx (Finite (5 / 2)) = Finite 9250"
  by code_simp

text \<open>
  The conversion is not additive on floats: with \<open>a = 0.1\<close> and \<open>b = 0.2\<close>,
  converting the float sum gives \<open>1110.0000000000002\<close> and adding the converted
  values gives \<open>1110.0\<close>.
\<close>

theorem conversion_not_additive:
  "\<not> float_eq
     (prediction_ugx (float_add (round_binary64 (1 / 10)) (round_binary64 (2 / 10))))
     (float_add (prediction_ugx (round_binary64 (1 / 10)))
                (prediction_ugx (round_binary64 (2 / 10))))"
proof -
  have L: "prediction_ugx (float_add (round_binary64 (1 / 10)) (round_binary64 (2 / 10)))
      = Finite (4881831627325441 / 4398046511104)"
    by (simp only: float_0_1 float_0_2 float_add.simps float_0_1_plus_0_2
        prediction_ugx_Finite float_0_3_times_3700)
  have R: "float_add (prediction_ugx (round_binary64 (1 / 10)))
      (prediction_ugx (round_binary64 (2 / 10))) = Finite 1110"
    by (simp only: float_0_1 float_0_2 float_add.simps prediction_ugx_Finite
        float_0_1_times_3700 float_0_2_times_3700 float_370_plus_740)
  show ?thesis unfolding L R by simp
qed

text \<open>
  Claim C6, as amended. The converted value is the binary64 product of the premium and
  3700; \<open>100.0\<close> is converted to \<open>370000.0\<close> and \<open>0.0\<close> to \<open>0.0\<close>; and for finite
  \<open>a\<close> and \<open>b\<close>, converting the sum equals (\<open>==\<close>) the sum of the converted values
  whenever \<open>a + b\<close>, \<open>a * 3700\<close> and \<open>b * 3700\<close> are binary64 numbers, that is,
  whenever the sum and the two products are computed without rounding.
\<close>

theorem conversion_additive_when_exact:
  "prediction_ugx usd = float_mul usd (Finite 3700)
   \<and> prediction_ugx (Finite 100) = Finite 370000
   \<and> prediction_ugx (Finite 0) = Finite 0
   \<and> (representable (a + b) \<and> representable (a * 3700) \<and> representable (b * 3700) \<longrightarrow>
        float_eq (prediction_ugx (float_add (Finite a) (Finite b)))
                 (float_add (prediction_ugx (Finite a)) (prediction_ugx (Finite b))))"
proof -
  have "prediction_ugx usd = float_mul usd (Finite 3700)"
    by (simp add: prediction_ugx_def float_of_int_EXCHANGE_RATE)
  moreover have "prediction_ugx (Finite 100) = Finite 370000"
    by (rule prediction_ugx_100)
  moreover have "prediction_ugx (Finite 0) = Finite 0"
    by (rule prediction_ugx_0)
  moreover have "float_eq (prediction_ugx (float_add (Finite a) (Finite b)))
                 (float_add (prediction_ugx (Finite a)) (prediction_ugx (Finite b)))"
    if "representable (a + b)" "representable (a * 3700)" "representable (b * 3700)"
  proof -
    have "prediction_ugx (float_add (Finite a) (Finite b)) = round_binary64 ((a + b) * 3700)"
      using that(1) by (simp add: representable_def prediction_ugx_Finite)
    moreover have "float_add (prediction_ugx (Finite a)) (prediction_ugx (Finite b))
        = round_binary64 ((a + b) * 3700)"
      using that(2,3) by (simp add: representable_def prediction_ugx_Finite distrib_right)
    ultimately show ?thesis by (simp add: float_eq_round_refl)
  qed
  ultimately show ?thesis by blast
qed

theorem conversion_additive_when_exact_witness:
  "representable (3 / 2 + 5 / 2) \<and> representable (3 / 2 * 3700) \<and> representable (5 / 2 * 3700)
   \<and> float_eq (prediction_ugx (float_add (Finite (3 / 2)) (Finite (5 / 2))))
        (float_add (prediction_ugx (Finite (3 / 2))) (prediction_ugx (Finite (5 / 2))))"
proof -
  have a: "representable (3 / 2 + 5 / 2)" by code_simp
  have b: "representable (3 / 2 * 3700)" by code_simp
  have c: "representable (5 / 2 * 3700)" by code_simp
  from conversion_additive_when_exact [of "Finite 100" "3 / 2" "5 / 2"] a b c
  show ?thesis by blast
qed

section \<open>Properties of the loader and the application\<close>

subsection \<open>What load_model does\<close>

lemma open_error_is_Exception: "is_Exception (open_error why)"
  by (cases why) (simp_all add: is_Exception_def)

lemma open_error_FileNotFoundError: "open_error why = FileNotFoundError \<longleftrightarrow> why = No_entry"
  by (cases why) simp_all

lemma load_model_cached:
  "cache_resource s k = Some m \<Longrightarrow> load_model fs k s = (Inr m, s)"
  by (simp add: load_model_def)

lemma load_model_missing:
  "cache_resource s k = None \<Longrightarrow> fs (model_path_of k) = No_such_file why \<Longrightarrow>
   load_model fs k s =
     (Inl StopException,
      s\<lparr>trace := trace s @
          [Joblib_load k (model_path_of k),
           St_error (if open_error why = FileNotFoundError
                     then Model_file_not_found (model_path_of k)
                     else Error_loading_model (open_error why)),
           St_stop]\<rparr>)"
  by (simp add: load_model_def load_model_body_def joblib_load_def st_stop_def st_error_def
      log_event_def Let_def open_error_is_Exception)

lemma load_model_pickled:
  "cache_resource s k = None \<Longrightarrow> fs (model_path_of k) = Pickled f \<Longrightarrow>
   load_model fs k s =
     (Inr \<lparr>object_id = next_id s, predict = f\<rparr>,
      s\<lparr>trace := trace s @ [Joblib_load k (model_path_of k)], next_id := Suc (next_id s),
        cache_resource := (cache_resource s)(k \<mapsto> \<lparr>object_id = next_id s, predict = f\<rparr>)\<rparr>)"
  by (simp add: load_model_def load_model_body_def joblib_load_def log_event_def Let_def)

lemma load_model_unreadable:
  "cache_resource s k = None \<Longrightarrow> fs (model_path_of k) = Unreadable e \<Longrightarrow>
   \<exists>evs. load_model fs k s = (Inl (if is_Exception e then StopException else e),
       s\<lparr>trace := trace s @ Joblib_load k (model_path_of k) # evs\<rparr>)
     \<and> (\<forall>q p. Joblib_load q p \<notin> set evs)"
  by (auto simp add: load_model_def load_model_body_def joblib_load_def st_stop_def st_error_def
      log_event_def Let_def is_Exception_def)

lemma load_model_Inr_cached:
  "load_model fs k s = (Inr m, s1) \<Longrightarrow> cache_resource s1 k = Some m"
  unfolding load_model_def by (auto split: option.splits prod.splits sum.splits)

text \<open>Two calls of \<open>joblib.load\<close> never return the same object.\<close>

lemma joblib_load_fresh:
  assumes "joblib_load fs p s = (Inr m1, s1)" and "joblib_load fs q s1 = (Inr m2, s2)"
  shows "object_id m1 \<noteq> object_id m2"
  using assms unfolding joblib_load_def
  by (auto split: file_content.splits)

subsection \<open>The invariant of the cache\<close>

lemma cache_invI:
  assumes "\<And>k m. cache_resource s k = Some m \<Longrightarrow>
      fs (model_path_of k) = Pickled (predict m)
      \<and> count_list (trace s) (Joblib_load k (model_path_of k)) = 1"
    and "\<And>k f. cache_resource s k = None \<Longrightarrow> fs (model_path_of k) = Pickled f \<Longrightarrow>
      count_list (trace s) (Joblib_load k (model_path_of k)) = 0"
  shows "cache_inv fs s"
  unfolding cache_inv_def using assms by (auto split: option.splits)

lemma cache_inv_Some:
  "cache_inv fs s \<Longrightarrow> cache_resource s k = Some m \<Longrightarrow>
   fs (model_path_of k) = Pickled (predict m)
   \<and> count_list (trace s) (Joblib_load k (model_path_of k)) = 1"
  unfolding cache_inv_def by (auto split: option.splits dest: spec [of _ k])

lemma cache_inv_None:
  "cache_inv fs s \<Longrightarrow> cache_resource s k = None \<Longrightarrow> fs (model_path_of k) = Pickled f \<Longrightarrow>
   count_list (trace s) (Joblib_load k (model_path_of k)) = 0"
  unfolding cache_inv_def by (auto split: option.splits dest: spec [of _ k])

lemma cache_inv_initial: "cache_inv fs initial_state"
  by (rule cache_invI) (simp_all add: initial_state_def)

lemma cache_inv_append:
  assumes "cache_inv fs s" and "\<And>q p. Joblib_load q p \<notin> set evs"
  shows "cache_inv fs (s\<lparr>trace := trace s @ evs\<rparr>)"
proof (rule cache_invI)
  fix k m
  assume "cache_resource (s\<lparr>trace := trace s @ evs\<rparr>) k = Some m"
  then have "cache_resource s k = Some m" by simp
  from cache_inv_Some [OF assms(1) this] assms(2) [of k "model_path_of k"]
  show "fs (model_path_of k) = Pickled (predict m)
      \<and> count_list (trace (s\<lparr>trace := trace s @ evs\<rparr>)) (Joblib_load k (model_path_of k)) = 1"
    by (simp add: count_list_0_iff)
next
  fix k f
  assume "cache_resource (s\<lparr>trace := trace s @ evs\<rparr>) k = None"
    and f: "fs (model_path_of k) = Pickled f"
  then have "cache_resource s k = None" by simp
  from cache_inv_None [OF assms(1) this f] assms(2) [of k "model_path_of k"]
  show "count_list (trace (s\<lparr>trace := trace s @ evs\<rparr>)) (Joblib_load k (model_path_of k)) = 0"
    by (simp add: count_list_0_iff)
qed

lemma cache_inv_failed_load:
  assumes "cache_inv fs s" and "\<And>f. fs (model_path_of k) \<noteq> Pickled f"
    and "\<And>q p. Joblib_load q p \<notin> set evs"
  shows "cache_inv fs (s\<lparr>trace := trace s @ Joblib_load k (model_path_of k) # evs\<rparr>)"
    (is "cache_inv fs ?s'")
proof (rule cache_invI)
  fix q m
  assume "cache_resource ?s' q = Some m"
  then have q: "cache_resource s q = Some m" by simp
  from cache_inv_Some [OF assms(1) q] assms(2) have "q \<noteq> k" by auto
  with cache_inv_Some [OF assms(1) q] assms(3) [of q "model_path_of q"]
  show "fs (model_path_of q) = Pickled (predict m)
      \<and> count_list (trace ?s') (Joblib_load q (model_path_of q)) = 1"
    by (simp add: count_list_0_iff)
next
  fix q f
  assume "cache_resource ?s' q = None" and f: "fs (model_path_of q) = Pickled f"
  then have q: "cache_resource s q = None" by simp
  from f assms(2) have "q \<noteq> k" by auto
  with cache_inv_None [OF assms(1) q f] assms(3) [of q "model_path_of q"]
  show "count_list (trace ?s') (Joblib_load q (model_path_of q)) = 0"
    by (simp add: count_list_0_iff)
qed

lemma cache_inv_first_load:
  assumes "cache_inv fs s" and "cache_resource s k = None" and "fs (model_path_of k) = Pickled f"
  shows "cache_inv fs
    (s\<lparr>trace := trace s @ [Joblib_load k (model_path_of k)], next_id := Suc (next_id s),
       cache_resource := (cache_resource s)(k \<mapsto> \<lparr>object_id = next_id s, predict = f\<rparr>)\<rparr>)"
    (is "cache_inv fs ?s'")
proof (rule cache_invI)
  fix q m
  assume q: "cache_resource ?s' q = Some m"
  show "fs (model_path_of q) = Pickled (predict m)
      \<and> count_list (trace ?s') (Joblib_load q (model_path_of q)) = 1"
  proof (cases "q = k")
    case True
    with q assms(3) cache_inv_None [OF assms] show ?thesis by auto
  next
    case False
    with q have "cache_resource s q = Some m" by simp
    from cache_inv_Some [OF assms(1) this] False show ?thesis by simp
  qed
next
  fix q g
  assume q: "cache_resource ?s' q = None" and g: "fs (model_path_of q) = Pickled g"
  from q have "q \<noteq> k" by (auto split: if_splits)
  with q have "cache_resource s q = None" by simp
  from cache_inv_None [OF assms(1) this g] \<open>q \<noteq> k\<close>
  show "count_list (trace ?s') (Joblib_load q (model_path_of q)) = 0" by simp
qed

lemma cache_inv_load_model:
  assumes "cache_inv fs s"
  shows "cache_inv fs (snd (load_model fs k s))"
proof (cases "cache_resource s k")
  case (Some m)
  then show ?thesis using assms by (simp add: load_model_cached)
next
  case None
  show ?thesis
  proof (cases "fs (model_path_of k)")
    case (No_such_file why)
    have eq: "snd (load_model fs k s) =
        s\<lparr>trace := trace s @ Joblib_load k (model_path_of k) #
            [St_error (if open_error why = FileNotFoundError
                       then Model_file_not_found (model_path_of k)
                       else Error_loading_model (open_error why)),
             St_stop]\<rparr>"
      using None No_such_file by (simp add: load_model_missing)
    show ?thesis unfolding eq
      by (rule cache_inv_failed_load [OF assms]) (simp_all add: No_such_file)
  next
    case (Unreadable e)
    have "\<exists>evs. load_model fs k s = (Inl (if is_Exception e then StopException else e),
       s\<lparr>trace := trace s @ Joblib_load k (model_path_of k) # evs\<rparr>)
       \<and> (\<forall>q p. Joblib_load q p \<notin> set evs)"
      using None Unreadable by (rule load_model_unreadable)
    then obtain evs where
      eq: "snd (load_model fs k s) = s\<lparr>trace := trace s @ Joblib_load k (model_path_of k) # evs\<rparr>"
      and evs: "\<And>q p. Joblib_load q p \<notin> set evs" by auto
    show ?thesis unfolding eq
      by (rule cache_inv_failed_load [OF assms]) (simp_all add: Unreadable evs)
  next
    case (Pickled f)
    have eq: "snd (load_model fs k s) =
        s\<lparr>trace := trace s @ [Joblib_load k (model_path_of k)], next_id := Suc (next_id s),
          cache_resource := (cache_resource s)(k \<mapsto> \<lparr>object_id = next_id s, predict = f\<rparr>)\<rparr>"
      using None Pickled by (simp add: load_model_pickled)
    show ?thesis unfolding eq by (rule cache_inv_first_load [OF assms None Pickled])
  qed
qed

subsection \<open>What main does\<close>

lemma main_load_failed:
  "load_model fs None s = (Inl e, s1) \<Longrightarrow> main fs w s = (Inl e, s1)"
  by (simp add: main_def)

lemma main_not_pressed:
  "load_model fs None s = (Inr m, s1) \<Longrightarrow> \<not> calculate_btn w \<Longrightarrow>
   main fs w s = (Inr None, s1)"
  by (simp add: main_def)

lemma main_pressed:
  assumes "load_model fs None s = (Inr m, s1)" and "calculate_btn w"
    and "format_input_data (age_input w) (vehicle_input w) (location_input w) = Inr input_df"
  shows "main fs w s =
     (let s3 = s1\<lparr>trace := trace s1 @
                 [Format_input_data (age_input w) (vehicle_input w) (location_input w),
                  Predict (object_id m) input_df]\<rparr>
      in case predict m input_df of
           Inl e \<Rightarrow> (Inl e, s3)
         | Inr [] \<Rightarrow> (Inl IndexError, s3)
         | Inr (prediction_usd # rest) \<Rightarrow>
             (Inr (Some (prediction_usd, prediction_ugx prediction_usd)),
              s3\<lparr>trace := trace s3 @
                  [Premium_displayed prediction_usd (prediction_ugx prediction_usd)]\<rparr>))"
  unfolding main_def assms(1) using assms(2)
  by (simp add: assms(3) log_event_def Let_def split: sum.splits list.splits)

lemma main_state:
  "\<exists>evs. snd (main fs w s) =
      (snd (load_model fs None s))\<lparr>trace := trace (snd (load_model fs None s)) @ evs\<rparr>
    \<and> (\<forall>q p. Joblib_load q p \<notin> set evs)"
proof (cases "load_model fs None s")
  case (Pair r s1)
  show ?thesis
  proof (cases r)
    case (Inl e)
    with Pair have "main fs w s = (Inl e, s1)" by (simp add: main_load_failed)
    with Pair show ?thesis by (intro exI [of _ "[]"]) simp
  next
    case (Inr m)
    with Pair have lm: "load_model fs None s = (Inr m, s1)" by simp
    show ?thesis
    proof (cases "calculate_btn w")
      case False
      with lm have "main fs w s = (Inr None, s1)" by (simp add: main_not_pressed)
      with Pair show ?thesis by (intro exI [of _ "[]"]) simp
    next
      case True
      obtain input_df where
        df: "format_input_data (age_input w) (vehicle_input w) (location_input w) = Inr input_df"
        by (simp add: format_input_data_eq)
      show ?thesis
        unfolding main_pressed [OF lm True df] lm Let_def
        by (auto split: sum.splits list.splits)
    qed
  qed
qed

lemma cache_inv_main:
  assumes "cache_inv fs s"
  shows "cache_inv fs (snd (main fs w s))"
proof -
  from main_state obtain evs where
    eq: "snd (main fs w s) =
        (snd (load_model fs None s))\<lparr>trace := trace (snd (load_model fs None s)) @ evs\<rparr>"
    and evs: "\<And>q p. Joblib_load q p \<notin> set evs" by blast
  show ?thesis unfolding eq
    by (rule cache_inv_append [OF cache_inv_load_model [OF assms]]) (rule evs)
qed

lemma reachable_cache_inv: "reachable fs s \<Longrightarrow> cache_inv fs s"
  by (induction rule: reachable.induct)
    (simp_all add: cache_inv_initial cache_inv_load_model cache_inv_main)

text \<open>
  The source has no handler around \<open>model.predict\<close>: when it raises, the exception
  leaves \<open>main\<close> after the calls of \<open>format_input_data\<close> and \<open>predict\<close>, and the
  cache keeps the model.
\<close>

lemma main_predict_raises:
  assumes "load_model fs None s = (Inr model, s1)"
    and "calculate_btn w"
    and "format_input_data (age_input w) (vehicle_input w) (location_input w) = Inr input_df"
    and "predict model input_df = Inl e"
  shows "main fs w s =
      (Inl e,
       s1\<lparr>trace := trace s1 @
           [Format_input_data (age_input w) (vehicle_input w) (location_input w),
            Predict (object_id model) input_df]\<rparr>)
    \<and> cache_resource (snd (main fs w s)) None = Some model"
proof -
  have run: "main fs w s =
      (Inl e,
       s1\<lparr>trace := trace s1 @
           [Format_input_data (age_input w) (vehicle_input w) (location_input w),
            Predict (object_id model) input_df]\<rparr>)"
    using main_pressed [OF assms(1-3)] assms(4) by (simp add: Let_def)
  moreover have "cache_resource (snd (main fs w s)) None = Some model"
    using load_model_Inr_cached [OF assms(1)] by (simp add: run)
  ultimately show ?thesis by blast
qed

section \<open>The claims about the loader and the application\<close>

text \<open>
  Claim C3. When the model that \<open>load_model\<close> returns predicts 2.5 for the encoded
  row, a submission of age 40, vehicle age 5 and location \<open>Suburban\<close> ends with the
  premium 2.5 in USD and 9250.0 in UGX: the product of 2.5 and 3700, which binary64
  holds exactly.
\<close>

theorem end_to_end_premium:
  assumes "load_model fs None s = (Inr model, s1)"
    and "format_input_data 40 5 ''Suburban'' = Inr input_df"
    and "predict model input_df = Inr (Finite (5 / 2) # rest)"
  shows "fst (main fs \<lparr>age_input = 40, vehicle_input = 5, location_input = ''Suburban'',
                      calculate_btn = True\<rparr> s)
         = Inr (Some (Finite (5 / 2), Finite 9250))"
proof -
  let ?w = "\<lparr>age_input = 40, vehicle_input = 5, location_input = ''Suburban'',
             calculate_btn = True\<rparr>"
  have "format_input_data (age_input ?w) (vehicle_input ?w) (location_input ?w) = Inr input_df"
    using assms(2) by simp
  from main_pressed [OF assms(1) _ this] assms(3) show ?thesis
    by (simp add: prediction_ugx_2_5)
qed

theorem end_to_end_premium_witness:
  "load_model (one_file stub_predict) None initial_state =
     (Inr \<lparr>object_id = 0, predict = stub_predict\<rparr>,
      \<lparr>cache_resource = [None \<mapsto> \<lparr>object_id = 0, predict = stub_predict\<rparr>],
       next_id = 1, trace = [Joblib_load None ''gbm_auto_model.pkl'']\<rparr>)
   \<and> format_input_data 40 5 ''Suburban'' =
       Inr [(''age'', [40]), (''vehicle_age'', [5]), (''location_Rural'', [0]),
            (''location_Suburban'', [1]), (''location_Urban'', [0])]
   \<and> predict \<lparr>object_id = 0, predict = stub_predict\<rparr>
         [(''age'', [40]), (''vehicle_age'', [5]), (''location_Rural'', [0]),
          (''location_Suburban'', [1]), (''location_Urban'', [0])] = Inr (Finite (5 / 2) # [])
   \<and> fst (main (one_file stub_predict)
         \<lparr>age_input = 40, vehicle_input = 5, location_input = ''Suburban'', calculate_btn = True\<rparr>
         initial_state)
       = Inr (Some (Finite (5 / 2), Finite 9250))"
proof -
  have a: "load_model (one_file stub_predict) None initial_state =
     (Inr \<lparr>object_id = 0, predict = stub_predict\<rparr>,
      \<lparr>cache_resource = [None \<mapsto> \<lparr>object_id = 0, predict = stub_predict\<rparr>],
       next_id = 1, trace = [Joblib_load None ''gbm_auto_model.pkl'']\<rparr>)"
    by (simp add: load_model_def load_model_body_def joblib_load_def log_event_def Let_def
        initial_state_def one_file_def model_path_of_def default_model_path_def)
  have b: "format_input_data 40 5 ''Suburban'' =
       Inr [(''age'', [40]), (''vehicle_age'', [5]), (''location_Rural'', [0]),
            (''location_Suburban'', [1]), (''location_Urban'', [0])]"
    by (simp add: format_input_data_eq)
  have c: "predict \<lparr>object_id = 0, predict = stub_predict\<rparr>
         [(''age'', [40]), (''vehicle_age'', [5]), (''location_Rural'', [0]),
          (''location_Suburban'', [1]), (''location_Urban'', [0])] = Inr (Finite (5 / 2) # [])"
    by (simp add: stub_predict_def)
  from end_to_end_premium [OF a b c] a b c show ?thesis by simp
qed

text \<open>
  Not every path that does not exist gives the message for a missing model file. In a
  directory whose only entry is the regular file \<open>gbm_auto_model.pkl\<close>, the path
  \<open>gbm_auto_model.pkl/x.pkl\<close> does not exist; opening it raises
  \<open>NotADirectoryError\<close>, which the second handler reports as an error of loading.
\<close>

theorem nonexistent_path_other_error:
  "one_file stub_predict ''gbm_auto_model.pkl/x.pkl'' = No_such_file Not_a_directory
   \<and> load_model (one_file stub_predict) (Some ''gbm_auto_model.pkl/x.pkl'') initial_state =
       (Inl StopException,
        \<lparr>cache_resource = Map.empty, next_id = 0,
         trace = [Joblib_load (Some ''gbm_auto_model.pkl/x.pkl'') ''gbm_auto_model.pkl/x.pkl'',
                  St_error (Error_loading_model NotADirectoryError),
                  St_stop]\<rparr>)"
  by (simp add: load_model_def load_model_body_def joblib_load_def log_event_def Let_def
      st_stop_def st_error_def initial_state_def one_file_def model_path_of_def
      is_Exception_def)

text \<open>
  Claim C4, as amended. In every state that a process reaches, \<open>load_model\<close> on a path
  that does not exist returns no model and stops the script run; \<open>main\<close>, whose call
  passes no argument, ends there when the default path does not exist, before any call
  of \<open>format_input_data\<close> or \<open>predict\<close>. The one message shown is the one for a
  missing model file when opening the path raises \<open>FileNotFoundError\<close>, and the one
  for an error of loading when it raises another exception.
\<close>

theorem nonexistent_model_halts:
  assumes "reachable fs s" and "fs (model_path_of arg) = No_such_file why"
  shows "load_model fs arg s =
      (Inl StopException,
       s\<lparr>trace := trace s @
           [Joblib_load arg (model_path_of arg),
            St_error (if open_error why = FileNotFoundError
                      then Model_file_not_found (model_path_of arg)
                      else Error_loading_model (open_error why)),
            St_stop]\<rparr>)
    \<and> (arg = None \<longrightarrow>
         main fs w s =
           (Inl StopException,
            s\<lparr>trace := trace s @
                [Joblib_load arg (model_path_of arg),
                 St_error (if open_error why = FileNotFoundError
                           then Model_file_not_found (model_path_of arg)
                           else Error_loading_model (open_error why)),
                 St_stop]\<rparr>))"
proof -
  have none: "cache_resource s arg = None"
  proof (cases "cache_resource s arg")
    case (Some m)
    from cache_inv_Some [OF reachable_cache_inv [OF assms(1)] Some] assms(2)
    show ?thesis by simp
  qed simp
  have lm: "load_model fs arg s =
      (Inl StopException,
       s\<lparr>trace := trace s @
           [Joblib_load arg (model_path_of arg),
            St_error (if open_error why = FileNotFoundError
                      then Model_file_not_found (model_path_of arg)
                      else Error_loading_model (open_error why)),
            St_stop]\<rparr>)"
    using none assms(2) by (rule load_model_missing)
  then show ?thesis by (auto simp: main_load_failed)
qed

theorem nonexistent_model_halts_witness:
  "reachable no_files initial_state
   \<and> no_files (model_path_of None) = No_such_file No_entry
   \<and> load_model no_files None initial_state =
       (Inl StopException,
        initial_state\<lparr>trace := trace initial_state @
           [Joblib_load None (model_path_of None),
            St_error (Model_file_not_found (model_path_of None)),
            St_stop]\<rparr>)
   \<and> main no_files
        \<lparr>age_input = 40, vehicle_input = 5, location_input = ''Urban'', calculate_btn = True\<rparr>
        initial_state =
       (Inl StopException,
        initial_state\<lparr>trace := trace initial_state @
           [Joblib_load None (model_path_of None),
            St_error (Model_file_not_found (model_path_of None)),
            St_stop]\<rparr>)"
proof -
  have a: "reachable no_files initial_state" by (rule reachable.start)
  have b: "no_files (model_path_of None) = No_such_file No_entry" by (simp add: no_files_def)
  from nonexistent_model_halts [OF a b, of "\<lparr>age_input = 40, vehicle_input = 5,
      location_input = ''Urban'', calculate_btn = True\<rparr>"] a b
  show ?thesis by simp
qed

text \<open>
  Not every path is loaded once. On a path with no file, two calls of \<open>load_model\<close>
  both stop the script run without a model, and \<open>joblib.load\<close> has run twice. And with
  the model file in place, a call with no argument followed by a call that passes the
  default path reads the same path twice and returns two objects.
\<close>

theorem load_not_once_per_path:
  "fst (load_model no_files (Some ''missing.pkl'') initial_state) = Inl StopException
   \<and> fst (load_model no_files (Some ''missing.pkl'')
          (snd (load_model no_files (Some ''missing.pkl'') initial_state))) = Inl StopException
   \<and> length (filter (loads_path ''missing.pkl'')
        (trace (snd (load_model no_files (Some ''missing.pkl'')
          (snd (load_model no_files (Some ''missing.pkl'') initial_state)))))) = 2
   \<and> model_path_of None = model_path_of (Some ''gbm_auto_model.pkl'')
   \<and> fst (load_model (one_file stub_predict) None initial_state)
       = Inr \<lparr>object_id = 0, predict = stub_predict\<rparr>
   \<and> fst (load_model (one_file stub_predict) (Some ''gbm_auto_model.pkl'')
          (snd (load_model (one_file stub_predict) None initial_state)))
       = Inr \<lparr>object_id = 1, predict = stub_predict\<rparr>
   \<and> length (filter (loads_path ''gbm_auto_model.pkl'')
        (trace (snd (load_model (one_file stub_predict) (Some ''gbm_auto_model.pkl'')
          (snd (load_model (one_file stub_predict) None initial_state)))))) = 2"
  by (simp add: load_model_def load_model_body_def joblib_load_def log_event_def Let_def
      st_stop_def st_error_def initial_state_def no_files_def one_file_def model_path_of_def
      default_model_path_def is_Exception_def)

text \<open>
  Claim C5, as amended. In every state that a process reaches, and for every argument
  (a path that the call passes, or no argument, which stands for the default path) whose
  path holds a model, two calls of \<open>load_model\<close> with that argument return the same
  object, the second without any effect, and \<open>joblib.load\<close> has run for that argument
  exactly once since the process started.
\<close>

theorem repeated_load_same_instance:
  assumes "reachable fs s" and "fs (model_path_of arg) = Pickled f"
  shows "\<exists>m s1. load_model fs arg s = (Inr m, s1)
      \<and> load_model fs arg s1 = (Inr m, s1)
      \<and> predict m = f
      \<and> count_list (trace s1) (Joblib_load arg (model_path_of arg)) = 1"
proof (cases "cache_resource s arg")
  case (Some m)
  from cache_inv_Some [OF reachable_cache_inv [OF assms(1)] Some] assms(2)
  have "predict m = f" "count_list (trace s) (Joblib_load arg (model_path_of arg)) = 1"
    by simp_all
  with load_model_cached [OF Some] show ?thesis by blast
next
  case None
  let ?m = "\<lparr>object_id = next_id s, predict = f\<rparr>"
  let ?s1 = "s\<lparr>trace := trace s @ [Joblib_load arg (model_path_of arg)],
        next_id := Suc (next_id s),
        cache_resource := (cache_resource s)(arg \<mapsto> ?m)\<rparr>"
  have first: "load_model fs arg s = (Inr ?m, ?s1)"
    using None assms(2) by (rule load_model_pickled)
  have "cache_resource ?s1 arg = Some ?m" by simp
  then have second: "load_model fs arg ?s1 = (Inr ?m, ?s1)" by (rule load_model_cached)
  have "count_list (trace ?s1) (Joblib_load arg (model_path_of arg)) = 1"
    using cache_inv_None [OF reachable_cache_inv [OF assms(1)] None assms(2)] by simp
  with first second show ?thesis by (intro exI [of _ ?m] exI [of _ ?s1]) simp
qed

theorem repeated_load_same_instance_witness:
  "reachable (one_file stub_predict) initial_state
   \<and> one_file stub_predict (model_path_of (Some ''gbm_auto_model.pkl'')) = Pickled stub_predict
   \<and> (\<exists>m s1. load_model (one_file stub_predict) (Some ''gbm_auto_model.pkl'') initial_state
          = (Inr m, s1)
      \<and> load_model (one_file stub_predict) (Some ''gbm_auto_model.pkl'') s1 = (Inr m, s1)
      \<and> predict m = stub_predict
      \<and> count_list (trace s1)
          (Joblib_load (Some ''gbm_auto_model.pkl'')
             (model_path_of (Some ''gbm_auto_model.pkl''))) = 1)"
proof -
  have a: "reachable (one_file stub_predict) initial_state" by (rule reachable.start)
  have b: "one_file stub_predict (model_path_of (Some ''gbm_auto_model.pkl''))
      = Pickled stub_predict"
    by (simp add: one_file_def model_path_of_def)
  from repeated_load_same_instance [OF a b] a b show ?thesis by simp
qed

end
